theory Spec2Isabelle
  imports Main "HOL-Library.Sublist"
begin

section \<open>Values of the command channel\<close>

text \<open>
  A command and a result are JSON objects (\<^verbatim>\<open>json.load\<close> / \<^verbatim>\<open>json.dump\<close>).
  \<open>pyval\<close> is the Python value a decoded JSON document is made of: \<^verbatim>\<open>None\<close>,
  booleans, integers, strings, lists and dictionaries with string keys. JSON numbers
  with a fractional part (Python floats) are left out of the model.
  A dictionary is an association list; a lookup finds the first entry of a key.
\<close>

datatype pyval =
    PNone
  | PBool bool
  | PInt int
  | PStr string
  | PList "pyval list"
  | PDict "(string \<times> pyval) list"

text \<open>
  An exception is represented by what the daemon observes of it, the text \<^verbatim>\<open>str(e)\<close>.
  Every failure modelled here is a subclass of \<^verbatim>\<open>Exception\<close>.
\<close>

type_synonym exn = string

text \<open>
  An f-string is kept as the list of its literal pieces and of the values it
  interpolates, in order; the decimal and \<^verbatim>\<open>repr\<close> spelling of the values is not modelled.
\<close>

datatype frag = Lit string | Fmt pyval

record result =
  status :: string
  message :: "frag list"
  data :: "pyval option"

fun type_name :: "pyval \<Rightarrow> string" where
  "type_name PNone = ''NoneType''"
| "type_name (PBool b) = ''bool''"
| "type_name (PInt i) = ''int''"
| "type_name (PStr s) = ''str''"
| "type_name (PList xs) = ''list''"
| "type_name (PDict d) = ''dict''"

definition attribute_error :: "string \<Rightarrow> string \<Rightarrow> exn" where
  "attribute_error tn attr =
     [CHR 0x27] @ tn @ [CHR 0x27] @ '' object has no attribute '' @ [CHR 0x27] @ attr @ [CHR 0x27]"

text \<open>\<^verbatim>\<open>d.get(k, default)\<close>: only a dictionary has the attribute \<^verbatim>\<open>get\<close>.\<close>

definition py_get :: "pyval \<Rightarrow> string \<Rightarrow> pyval \<Rightarrow> exn + pyval" where
  "py_get d k dflt =
     (case d of
        PDict kvs \<Rightarrow> (case map_of kvs k of None \<Rightarrow> Inr dflt | Some v \<Rightarrow> Inr v)
      | _ \<Rightarrow> Inl (attribute_error (type_name d) ''get''))"

text \<open>Python truthiness, as \<^verbatim>\<open>if args.get('url'):\<close> tests it.\<close>

fun truthy :: "pyval \<Rightarrow> bool" where
  "truthy PNone = False"
| "truthy (PBool b) = b"
| "truthy (PInt i) = (i \<noteq> 0)"
| "truthy (PStr s) = (s \<noteq> [])"
| "truthy (PList xs) = (xs \<noteq> [])"
| "truthy (PDict d) = (d \<noteq> [])"

text \<open>
  The value of an operand of \<^verbatim>\<open>0 <= tab_index < len(self.pages)\<close>: integers, and
  booleans, which Python compares as 0 and 1; every other modelled type raises TypeError.
\<close>

fun as_int :: "pyval \<Rightarrow> int option" where
  "as_int (PInt i) = Some i"
| "as_int (PBool b) = Some (if b then 1 else 0)"
| "as_int _ = None"

definition compare_error :: "pyval \<Rightarrow> exn" where
  "compare_error v =
     [CHR 0x27] @ ''<='' @ [CHR 0x27] @ '' not supported between instances of ''
       @ [CHR 0x27] @ ''int'' @ [CHR 0x27] @ '' and '' @ [CHR 0x27] @ type_name v @ [CHR 0x27]"

text \<open>\<^verbatim>\<open>xs[i]\<close> on a list: a negative \<open>i\<close> addresses position \<open>len + i\<close>; beyond both ends IndexError.\<close>

definition py_index :: "'a list \<Rightarrow> int \<Rightarrow> exn + 'a" where
  "py_index xs i =
     (if 0 \<le> i \<and> i < int (length xs) then Inr (xs ! nat i)
      else if i < 0 \<and> - int (length xs) \<le> i then Inr (xs ! nat (int (length xs) + i))
      else Inl ''list index out of range'')"

section \<open>The page-automation collaborator\<close>

text \<open>
  The browser is outside the program. \<open>env\<close> gives, for one command, the outcome of
  each primitive the daemon may call on it: \<open>Inl m\<close> is a raised exception with text \<open>m\<close>,
  \<open>Inr v\<close> a normal return. A page handle is a number. Within one command no primitive
  is called twice with the same arguments, so a function of the arguments is enough;
  successive commands are given their own \<open>env\<close>.
\<close>

type_synonym page_handle = nat

record env =
  goto :: "page_handle \<Rightarrow> string \<Rightarrow> exn + unit"
  page_title :: "page_handle \<Rightarrow> exn + string"
  page_url :: "page_handle \<Rightarrow> exn + string"
  click :: "page_handle \<Rightarrow> pyval \<Rightarrow> exn + unit"
  fill :: "page_handle \<Rightarrow> pyval \<Rightarrow> pyval \<Rightarrow> exn + unit"
  screenshot :: "page_handle \<Rightarrow> pyval \<Rightarrow> exn + unit"
  wait_for_selector :: "page_handle \<Rightarrow> pyval \<Rightarrow> exn + unit"
  evaluate :: "page_handle \<Rightarrow> pyval \<Rightarrow> exn + pyval"
  new_page :: "exn + page_handle"
  bring_to_front :: "page_handle \<Rightarrow> exn + unit"

text \<open>The primitives called, in order: what the browser has been asked to do.\<close>

datatype call =
    Goto page_handle string
  | Title page_handle
  | Url page_handle
  | Click page_handle pyval
  | Fill page_handle pyval pyval
  | Screenshot page_handle pyval
  | WaitForSelector page_handle pyval
  | Evaluate page_handle pyval
  | NewPage
  | BringToFront page_handle

text \<open>
  \<^verbatim>\<open>class BrowserAutomation\<close>: \<open>page\<close> is \<^verbatim>\<open>self.page\<close> (\<^verbatim>\<open>None\<close> until the browser has
  started), \<open>has_context\<close> says whether the attribute \<^verbatim>\<open>self.context\<close> has been assigned.
\<close>

record browser_automation =
  page :: "page_handle option"
  has_context :: bool

definition failed :: "exn \<Rightarrow> pyval" where
  "failed e = PDict [(''success'', PBool False), (''error'', PStr e)]"

text \<open>
  Each method of BrowserAutomation wraps its body in \<^verbatim>\<open>try/except Exception\<close> and
  returns a dictionary; with \<^verbatim>\<open>self.page\<close> still \<^verbatim>\<open>None\<close> the attribute access raises
  inside that \<^verbatim>\<open>try\<close>.
\<close>

definition navigate_to :: "env \<Rightarrow> browser_automation \<Rightarrow> string \<Rightarrow> pyval \<times> call list" where
  "navigate_to ev a u =
     (case page a of
        None \<Rightarrow> (failed (attribute_error ''NoneType'' ''goto''), [])
      | Some p \<Rightarrow>
          (case goto ev p u of
             Inl e \<Rightarrow> (failed e, [Goto p u])
           | Inr _ \<Rightarrow>
               (case page_title ev p of
                  Inl e \<Rightarrow> (failed e, [Goto p u, Title p])
                | Inr t \<Rightarrow>
                    (PDict [(''success'', PBool True), (''url'', PStr u), (''title'', PStr t)],
                     [Goto p u, Title p]))))"

definition take_screenshot :: "env \<Rightarrow> browser_automation \<Rightarrow> pyval \<Rightarrow> pyval \<times> call list" where
  "take_screenshot ev a filename =
     (case page a of
        None \<Rightarrow> (failed (attribute_error ''NoneType'' ''screenshot''), [])
      | Some p \<Rightarrow>
          (case screenshot ev p filename of
             Inl e \<Rightarrow> (failed e, [Screenshot p filename])
           | Inr _ \<Rightarrow>
               (PDict [(''success'', PBool True), (''filename'', filename)],
                [Screenshot p filename])))"

definition click_element :: "env \<Rightarrow> browser_automation \<Rightarrow> pyval \<Rightarrow> pyval \<times> call list" where
  "click_element ev a selector =
     (case page a of
        None \<Rightarrow> (failed (attribute_error ''NoneType'' ''click''), [])
      | Some p \<Rightarrow>
          (case click ev p selector of
             Inl e \<Rightarrow> (failed e, [Click p selector])
           | Inr _ \<Rightarrow>
               (PDict [(''success'', PBool True), (''selector'', selector)],
                [Click p selector])))"

definition fill_form :: "env \<Rightarrow> browser_automation \<Rightarrow> pyval \<Rightarrow> pyval \<Rightarrow> pyval \<times> call list" where
  "fill_form ev a selector text =
     (case page a of
        None \<Rightarrow> (failed (attribute_error ''NoneType'' ''fill''), [])
      | Some p \<Rightarrow>
          (case fill ev p selector text of
             Inl e \<Rightarrow> (failed e, [Fill p selector text])
           | Inr _ \<Rightarrow>
               (PDict [(''success'', PBool True), (''selector'', selector)],
                [Fill p selector text])))"

definition wait_for_element :: "env \<Rightarrow> browser_automation \<Rightarrow> pyval \<Rightarrow> pyval \<times> call list" where
  "wait_for_element ev a selector =
     (case page a of
        None \<Rightarrow> (failed (attribute_error ''NoneType'' ''wait_for_selector''), [])
      | Some p \<Rightarrow>
          (case wait_for_selector ev p selector of
             Inl e \<Rightarrow> (failed e, [WaitForSelector p selector])
           | Inr _ \<Rightarrow>
               (PDict [(''success'', PBool True), (''selector'', selector)],
                [WaitForSelector p selector])))"

definition execute_javascript :: "env \<Rightarrow> browser_automation \<Rightarrow> pyval \<Rightarrow> pyval \<times> call list" where
  "execute_javascript ev a script =
     (case page a of
        None \<Rightarrow> (failed (attribute_error ''NoneType'' ''evaluate''), [])
      | Some p \<Rightarrow>
          (case evaluate ev p script of
             Inl e \<Rightarrow> (failed e, [Evaluate p script])
           | Inr r \<Rightarrow>
               (PDict [(''success'', PBool True), (''result'', r)],
                [Evaluate p script])))"

section \<open>The daemon: tab registry and command dispatch\<close>

text \<open>
  One entry of \<^verbatim>\<open>self.pages\<close>: a dictionary with the keys \<^verbatim>\<open>page\<close>, \<^verbatim>\<open>title\<close>, \<^verbatim>\<open>url\<close>,
  \<^verbatim>\<open>index\<close> and, for tabs opened by \<^verbatim>\<open>new_tab\<close> only, \<^verbatim>\<open>purpose\<close>
  (\<open>None\<close>: the key is absent, as for the initial tab).
\<close>

record tab =
  tab_page :: page_handle
  title :: string
  url :: string
  index :: int
  purpose :: "pyval option"

text \<open>\<^verbatim>\<open>class BrowserDaemon\<close>: the fields the commands read and write.\<close>

record daemon =
  automation :: "browser_automation option"
  running :: bool
  pages :: "tab list"
  current_page_index :: int

definition ok :: "frag list \<Rightarrow> pyval \<Rightarrow> result" where
  "ok m d = \<lparr>status = ''success'', message = m, data = Some d\<rparr>"

definition err :: "frag list \<Rightarrow> result" where
  "err m = \<lparr>status = ''error'', message = m, data = None\<rparr>"

text \<open>\<^verbatim>\<open>url.startswith(('http://', 'https://'))\<close>\<close>

definition startswith_scheme :: "string \<Rightarrow> bool" where
  "startswith_scheme u = (prefix ''http://'' u \<or> prefix ''https://'' u)"

text \<open>
  The two lines \<^verbatim>\<open>if not url.startswith(...): url = 'https://' + url\<close>, which the
  \<^verbatim>\<open>navigate\<close> and the \<^verbatim>\<open>new_tab\<close> case both contain.
\<close>

definition with_scheme :: "string \<Rightarrow> string" where
  "with_scheme u = (if \<not> startswith_scheme u then ''https://'' @ u else u)"

text \<open>\<^verbatim>\<open>tab.get('purpose', 'general')\<close>\<close>

definition purpose_of :: "tab \<Rightarrow> pyval" where
  "purpose_of t = (case purpose t of None \<Rightarrow> PStr ''general'' | Some v \<Rightarrow> v)"

text \<open>
  A case of \<^verbatim>\<open>execute_command\<close> yields \<open>Inl e\<close> when an exception with text \<open>e\<close> leaves
  it and \<open>Inr r\<close> when it returns \<open>r\<close>, together with the daemon as the case left it
  (assignments made before an exception stay) and the primitives it called.
\<close>

type_synonym outcome = "(exn + result) \<times> daemon \<times> call list"

definition cmd_navigate :: "env \<Rightarrow> browser_automation \<Rightarrow> daemon \<Rightarrow> pyval \<Rightarrow> outcome" where
  "cmd_navigate ev a st args =
     (case py_get args ''url'' PNone of
        Inl e \<Rightarrow> (Inl e, st, [])
      | Inr (PStr u) \<Rightarrow>
          (let u' = with_scheme u; (r, cs) = navigate_to ev a u'
           in (Inr (ok [Lit ''Navigated to '', Fmt (PStr u')] r), st, cs))
      | Inr v \<Rightarrow> (Inl (attribute_error (type_name v) ''startswith''), st, []))"

definition cmd_click :: "env \<Rightarrow> browser_automation \<Rightarrow> daemon \<Rightarrow> pyval \<Rightarrow> outcome" where
  "cmd_click ev a st args =
     (case py_get args ''selector'' PNone of
        Inl e \<Rightarrow> (Inl e, st, [])
      | Inr selector \<Rightarrow>
          (let (r, cs) = click_element ev a selector
           in (Inr (ok [Lit ''Clicked '', Fmt selector] r), st, cs)))"

definition cmd_fill :: "env \<Rightarrow> browser_automation \<Rightarrow> daemon \<Rightarrow> pyval \<Rightarrow> outcome" where
  "cmd_fill ev a st args =
     (case py_get args ''selector'' PNone of
        Inl e \<Rightarrow> (Inl e, st, [])
      | Inr selector \<Rightarrow>
          (case py_get args ''text'' PNone of
             Inl e \<Rightarrow> (Inl e, st, [])
           | Inr text \<Rightarrow>
               (let (r, cs) = fill_form ev a selector text
                in (Inr (ok [Lit ''Filled '', Fmt selector, Lit '' with '', Lit [CHR 0x27],
                             Fmt text, Lit [CHR 0x27]] r), st, cs))))"

definition cmd_screenshot :: "env \<Rightarrow> browser_automation \<Rightarrow> daemon \<Rightarrow> pyval \<Rightarrow> outcome" where
  "cmd_screenshot ev a st args =
     (case py_get args ''filename'' (PStr ''screenshot.png'') of
        Inl e \<Rightarrow> (Inl e, st, [])
      | Inr filename \<Rightarrow>
          (let (r, cs) = take_screenshot ev a filename
           in (Inr (ok [Lit ''Screenshot saved as '', Fmt filename] r), st, cs)))"

definition cmd_title :: "env \<Rightarrow> browser_automation \<Rightarrow> daemon \<Rightarrow> outcome" where
  "cmd_title ev a st =
     (case page a of
        None \<Rightarrow> (Inl (attribute_error ''NoneType'' ''title''), st, [])
      | Some p \<Rightarrow>
          (case page_title ev p of
             Inl e \<Rightarrow> (Inl e, st, [Title p])
           | Inr t \<Rightarrow> (Inr (ok [Lit ''Page title: '', Fmt (PStr t)] (PStr t)), st, [Title p])))"

definition cmd_wait :: "env \<Rightarrow> browser_automation \<Rightarrow> daemon \<Rightarrow> pyval \<Rightarrow> outcome" where
  "cmd_wait ev a st args =
     (case py_get args ''selector'' PNone of
        Inl e \<Rightarrow> (Inl e, st, [])
      | Inr selector \<Rightarrow>
          (let (r, cs) = wait_for_element ev a selector
           in (Inr (ok [Lit ''Waited for '', Fmt selector] r), st, cs)))"

definition cmd_js :: "env \<Rightarrow> browser_automation \<Rightarrow> daemon \<Rightarrow> pyval \<Rightarrow> outcome" where
  "cmd_js ev a st args =
     (case py_get args ''script'' PNone of
        Inl e \<Rightarrow> (Inl e, st, [])
      | Inr script \<Rightarrow>
          (let (r, cs) = execute_javascript ev a script
           in (Inr (ok [Lit ''JavaScript executed''] r), st, cs)))"

text \<open>
  \<^verbatim>\<open>new_tab\<close>. \<open>tab_info\<close> is the object appended to \<^verbatim>\<open>self.pages\<close>, so the later
  assignments to \<^verbatim>\<open>tab_info['url']\<close> and \<^verbatim>\<open>tab_info['title']\<close> change the last entry
  of the list.
\<close>

definition new_tab_result :: "tab \<Rightarrow> result" where
  "new_tab_result t =
     ok [Lit ''New tab opened (Tab '', Fmt (PInt (index t + 1)), Lit '')'']
        (PDict [(''tab_index'', PInt (index t)), (''purpose'', purpose_of t),
                (''url'', PStr (url t))])"

definition cmd_new_tab :: "env \<Rightarrow> browser_automation \<Rightarrow> daemon \<Rightarrow> pyval \<Rightarrow> outcome" where
  "cmd_new_tab ev a st args =
     (if \<not> has_context a
      then (Inl (attribute_error ''BrowserAutomation'' ''context''), st, [])
      else
        (case new_page ev of
           Inl e \<Rightarrow> (Inl e, st, [NewPage])
         | Inr np \<Rightarrow>
             (case py_get args ''purpose'' (PStr ''general'') of
                Inl e \<Rightarrow> (Inl e, st, [NewPage])
              | Inr pu \<Rightarrow>
                  (let tab_info = \<lparr>tab_page = np, title = ''New Tab'', url = ''about:blank'',
                                   index = int (length (pages st)), purpose = Some pu\<rparr>;
                       ps = pages st @ [tab_info];
                       st1 = st\<lparr>pages := ps, current_page_index := int (length ps) - 1,
                                automation := Some (a\<lparr>page := Some np\<rparr>)\<rparr>
                   in
                     (case py_get args ''url'' PNone of
                        Inl e \<Rightarrow> (Inl e, st1, [NewPage])
                      | Inr v \<Rightarrow>
                          if truthy v then
                            (case v of
                               PStr u \<Rightarrow>
                                 (let u' = with_scheme u in
                                  case goto ev np u' of
                                    Inl e \<Rightarrow> (Inl e, st1, [NewPage, Goto np u'])
                                  | Inr _ \<Rightarrow>
                                      (let t2 = tab_info\<lparr>url := u'\<rparr>;
                                           st2 = st1\<lparr>pages := pages st @ [t2]\<rparr>
                                       in case page_title ev np of
                                            Inl e \<Rightarrow> (Inl e, st2, [NewPage, Goto np u', Title np])
                                          | Inr ti \<Rightarrow>
                                              (let t3 = t2\<lparr>title := ti\<rparr>;
                                                   st3 = st1\<lparr>pages := pages st @ [t3]\<rparr>
                                               in (Inr (new_tab_result t3), st3,
                                                   [NewPage, Goto np u', Title np]))))
                             | _ \<Rightarrow>
                                 (Inl (attribute_error (type_name v) ''startswith''), st1,
                                  [NewPage]))
                          else (Inr (new_tab_result tab_info), st1, [NewPage]))))))"

text \<open>
  \<^verbatim>\<open>switch_tab\<close>. \<^verbatim>\<open>self.current_page_index\<close> is held as an integer: a boolean index
  is stored as the integer Python computes with. The result echoes the index as given.
\<close>

definition cmd_switch_tab :: "env \<Rightarrow> browser_automation \<Rightarrow> daemon \<Rightarrow> pyval \<Rightarrow> outcome" where
  "cmd_switch_tab ev a st args =
     (case py_get args ''index'' (PInt 0) of
        Inl e \<Rightarrow> (Inl e, st, [])
      | Inr tab_index \<Rightarrow>
          (case as_int tab_index of
             None \<Rightarrow> (Inl (compare_error tab_index), st, [])
           | Some i \<Rightarrow>
               if 0 \<le> i \<and> i < int (length (pages st)) then
                 (let current_tab = pages st ! nat i;
                      st1 = st\<lparr>current_page_index := i,
                               automation := Some (a\<lparr>page := Some (tab_page current_tab)\<rparr>)\<rparr>
                  in case bring_to_front ev (tab_page current_tab) of
                       Inl e \<Rightarrow> (Inl e, st1, [BringToFront (tab_page current_tab)])
                     | Inr _ \<Rightarrow>
                         (Inr (ok [Lit ''Switched to Tab '', Fmt (PInt (i + 1))]
                                 (PDict [(''tab_index'', tab_index),
                                         (''title'', PStr (title current_tab)),
                                         (''url'', PStr (url current_tab)),
                                         (''purpose'', purpose_of current_tab)])),
                          st1, [BringToFront (tab_page current_tab)]))
               else (Inr (err [Lit ''Tab index '', Fmt tab_index, Lit '' not found'']), st, [])))"

text \<open>
  The body of the \<^verbatim>\<open>list_tabs\<close> loop for the tab at position \<open>i\<close>: the tab as the
  iteration leaves it, the entry appended to \<^verbatim>\<open>tabs_info\<close>, the primitives called.
  The \<^verbatim>\<open>except:\<close> clause is bare and passes nothing on.
\<close>

definition closed_entry :: "nat \<Rightarrow> tab \<Rightarrow> pyval" where
  "closed_entry i t =
     PDict [(''index'', PInt (int i)), (''title'', PStr ''Closed Tab''),
            (''url'', PStr ''about:blank''), (''purpose'', purpose_of t),
            (''active'', PBool False)]"

definition list_entry :: "env \<Rightarrow> int \<Rightarrow> nat \<Rightarrow> tab \<Rightarrow> tab \<times> pyval \<times> call list" where
  "list_entry ev cur i t =
     (case page_title ev (tab_page t) of
        Inl e \<Rightarrow> (t, closed_entry i t, [Title (tab_page t)])
      | Inr ti \<Rightarrow>
          (let t1 = t\<lparr>title := ti\<rparr> in
           case page_url ev (tab_page t) of
             Inl e \<Rightarrow> (t1, closed_entry i t1, [Title (tab_page t), Url (tab_page t)])
           | Inr u \<Rightarrow>
               (let t2 = t1\<lparr>url := u\<rparr> in
                (t2,
                 PDict [(''index'', PInt (int i)), (''title'', PStr (title t2)),
                        (''url'', PStr (url t2)), (''purpose'', purpose_of t2),
                        (''active'', PBool (int i = cur))],
                 [Title (tab_page t), Url (tab_page t)]))))"

fun list_tabs_loop :: "env \<Rightarrow> int \<Rightarrow> nat \<Rightarrow> tab list \<Rightarrow> tab list \<times> pyval list \<times> call list" where
  "list_tabs_loop ev cur i [] = ([], [], [])"
| "list_tabs_loop ev cur i (t # ts) =
     (let (t', info, cs) = list_entry ev cur i t;
          (ts', infos, css) = list_tabs_loop ev cur (Suc i) ts
      in (t' # ts', info # infos, cs @ css))"

definition cmd_list_tabs :: "env \<Rightarrow> daemon \<Rightarrow> outcome" where
  "cmd_list_tabs ev st =
     (let (ps, tabs_info, cs) = list_tabs_loop ev (current_page_index st) 0 (pages st)
      in (Inr (ok [Lit ''Found '', Fmt (PInt (int (length tabs_info))), Lit '' tabs'']
                 (PDict [(''tabs'', PList tabs_info),
                         (''current_tab'', PInt (current_page_index st))])),
          st\<lparr>pages := ps\<rparr>, cs))"

text \<open>
  \<^verbatim>\<open>current_tab\<close>: the refresh of the cached title and url sits in
  \<^verbatim>\<open>try: ... except: pass\<close>.
\<close>

definition refresh :: "env \<Rightarrow> tab \<Rightarrow> tab \<times> call list" where
  "refresh ev t =
     (case page_title ev (tab_page t) of
        Inl e \<Rightarrow> (t, [Title (tab_page t)])
      | Inr ti \<Rightarrow>
          (case page_url ev (tab_page t) of
             Inl e \<Rightarrow> (t\<lparr>title := ti\<rparr>, [Title (tab_page t), Url (tab_page t)])
           | Inr u \<Rightarrow> (t\<lparr>title := ti, url := u\<rparr>, [Title (tab_page t), Url (tab_page t)])))"

definition store :: "'a list \<Rightarrow> int \<Rightarrow> 'a \<Rightarrow> 'a list" where
  "store xs i v = xs[nat (if i < 0 then int (length xs) + i else i) := v]"

definition cmd_current_tab :: "env \<Rightarrow> daemon \<Rightarrow> outcome" where
  "cmd_current_tab ev st =
     (if pages st \<noteq> [] then
        (case py_index (pages st) (current_page_index st) of
           Inl e \<Rightarrow> (Inl e, st, [])
         | Inr current_tab \<Rightarrow>
             (let (t, cs) = refresh ev current_tab
              in (Inr (ok [Lit ''Current tab info'']
                         (PDict [(''tab_index'', PInt (current_page_index st)),
                                 (''title'', PStr (title t)),
                                 (''url'', PStr (url t)),
                                 (''purpose'', purpose_of t)])),
                  st\<lparr>pages := store (pages st) (current_page_index st) t\<rparr>, cs)))
      else (Inr (err [Lit ''No tabs available'']), st, []))"

definition cmd_stop :: "daemon \<Rightarrow> outcome" where
  "cmd_stop st =
     (Inr \<lparr>status = ''success'', message = [Lit ''Stopping daemon''], data = None\<rparr>,
      st\<lparr>running := False\<rparr>, [])"

text \<open>
  The \<^verbatim>\<open>try\<close> block of \<^verbatim>\<open>execute_command\<close>: \<^verbatim>\<open>command_data.get('type')\<close>,
  \<^verbatim>\<open>command_data.get('args', {})\<close>, then the \<^verbatim>\<open>if/elif\<close> chain on the type.
\<close>

definition dispatch :: "env \<Rightarrow> browser_automation \<Rightarrow> daemon \<Rightarrow> pyval \<Rightarrow> outcome" where
  "dispatch ev a st command_data =
     (case py_get command_data ''type'' PNone of
        Inl e \<Rightarrow> (Inl e, st, [])
      | Inr command_type \<Rightarrow>
          (case py_get command_data ''args'' (PDict []) of
             Inl e \<Rightarrow> (Inl e, st, [])
           | Inr args \<Rightarrow>
               if command_type = PStr ''navigate'' then cmd_navigate ev a st args
               else if command_type = PStr ''click'' then cmd_click ev a st args
               else if command_type = PStr ''fill'' then cmd_fill ev a st args
               else if command_type = PStr ''screenshot'' then cmd_screenshot ev a st args
               else if command_type = PStr ''title'' then cmd_title ev a st
               else if command_type = PStr ''wait'' then cmd_wait ev a st args
               else if command_type = PStr ''js'' then cmd_js ev a st args
               else if command_type = PStr ''new_tab'' then cmd_new_tab ev a st args
               else if command_type = PStr ''switch_tab'' then cmd_switch_tab ev a st args
               else if command_type = PStr ''list_tabs'' then cmd_list_tabs ev st
               else if command_type = PStr ''current_tab'' then cmd_current_tab ev st
               else if command_type = PStr ''stop'' then cmd_stop st
               else (Inr (err [Lit ''Unknown command: '', Fmt command_type]), st, [])))"

text \<open>
  \<^verbatim>\<open>execute_command\<close>: the guard on \<^verbatim>\<open>self.automation\<close>, then the \<^verbatim>\<open>try\<close> block whose
  \<^verbatim>\<open>except Exception as e\<close> returns \<^verbatim>\<open>{"status": "error", "message": str(e)}\<close>.
\<close>

definition execute_command :: "env \<Rightarrow> daemon \<Rightarrow> pyval \<Rightarrow> result \<times> daemon \<times> call list" where
  "execute_command ev st command_data =
     (case automation st of
        None \<Rightarrow> (err [Lit ''Browser not started''], st, [])
      | Some a \<Rightarrow>
          (case dispatch ev a st command_data of
             (Inl e, st', cs) \<Rightarrow> (err [Lit e], st', cs)
           | (Inr r, st', cs) \<Rightarrow> (r, st', cs)))"

section \<open>Startup and the daemon loop\<close>

text \<open>
  The outcomes of the four steps of \<^verbatim>\<open>BrowserAutomation.start_browser\<close>: starting
  Playwright, launching the browser, creating the context, opening the first page.
\<close>

record startup =
  start_playwright :: "exn + unit"
  launch :: "exn + unit"
  new_context :: "exn + unit"
  first_page :: "exn + page_handle"

text \<open>
  \<^verbatim>\<open>BrowserAutomation.start_browser\<close> has no \<^verbatim>\<open>try\<close>: the first failing step leaves
  it with the exception (\<open>Inl\<close>), the fields assigned so far stay. On success the first
  component is the handle just assigned to \<^verbatim>\<open>self.page\<close>.
\<close>

definition automation_start_browser ::
    "startup \<Rightarrow> browser_automation \<Rightarrow> (exn + page_handle) \<times> browser_automation" where
  "automation_start_browser su a =
     (case start_playwright su of
        Inl e \<Rightarrow> (Inl e, a)
      | Inr _ \<Rightarrow>
          (case launch su of
             Inl e \<Rightarrow> (Inl e, a)
           | Inr _ \<Rightarrow>
               (case new_context su of
                  Inl e \<Rightarrow> (Inl e, a)
                | Inr _ \<Rightarrow>
                    (case first_page su of
                       Inl e \<Rightarrow> (Inl e, a\<lparr>has_context := True\<rparr>)
                     | Inr p \<Rightarrow> (Inr p, a\<lparr>has_context := True, page := Some p\<rparr>)))))"

text \<open>
  \<^verbatim>\<open>BrowserDaemon.start_browser\<close>. The constructor \<^verbatim>\<open>BrowserAutomation(headless=False)\<close>
  only assigns fields, so \<^verbatim>\<open>self.automation\<close> is set whatever happens next. The second
  component is the result handed to \<^verbatim>\<open>write_result\<close> (which swallows its own failures).
\<close>

definition start_browser :: "startup \<Rightarrow> daemon \<Rightarrow> daemon \<times> result" where
  "start_browser su st =
     (case automation_start_browser su \<lparr>page = None, has_context = False\<rparr> of
        (Inl e, a) \<Rightarrow>
          (st\<lparr>automation := Some a\<rparr>,
           \<lparr>status = ''error'', message = [Lit e], data = None\<rparr>)
      | (Inr p, a) \<Rightarrow>
          (st\<lparr>automation := Some a,
              pages := pages st @
                [\<lparr>tab_page = p, title = ''New Tab'', url = ''about:blank'', index = 0,
                  purpose = None\<rparr>]\<rparr>,
           \<lparr>status = ''started'', message = [Lit ''Browser daemon ready''], data = None\<rparr>))"

text \<open>The fields as \<^verbatim>\<open>__init__\<close> sets them before it calls \<^verbatim>\<open>start_browser\<close>.\<close>

definition init :: daemon where
  "init = \<lparr>automation = None, running = True, pages = [], current_page_index = 0\<rparr>"

text \<open>
  What one iteration of the loop in \<^verbatim>\<open>run\<close> finds: no command file; a file whose
  opening or decoding raises; or a decoded command, with the browser's behaviour
  while it executes and whether \<^verbatim>\<open>os.remove\<close> succeeds afterwards. Signals are not modelled.
\<close>

datatype observation =
    NoFile
  | Unreadable exn
  | CommandFile pyval env bool

text \<open>
  What the loop has done over a list of observations: the daemon at the end, the results
  handed to \<^verbatim>\<open>write_result\<close>, the number of times it looked for the command file,
  and whether the loop was left (\<open>exited\<close>) or is still polling when the observations end.
\<close>

record trace =
  final :: daemon
  written :: "result list"
  polls :: nat
  exited :: bool

definition polled :: "result list \<Rightarrow> trace \<Rightarrow> trace" where
  "polled rs t = t\<lparr>written := rs @ written t, polls := Suc (polls t)\<rparr>"

text \<open>
  \<^verbatim>\<open>run\<close>: \<^verbatim>\<open>while self.running\<close>. After a command the loop breaks when its type is
  \<^verbatim>\<open>stop\<close>, unless \<^verbatim>\<open>os.remove\<close> or \<^verbatim>\<open>command_data.get\<close> raised before, which the
  loop's own \<^verbatim>\<open>except\<close> catches.
\<close>

fun run :: "daemon \<Rightarrow> observation list \<Rightarrow> trace" where
  "run st [] = \<lparr>final = st, written = [], polls = 0, exited = (\<not> running st)\<rparr>"
| "run st (ob # obs) =
     (if \<not> running st then \<lparr>final = st, written = [], polls = 0, exited = True\<rparr>
      else
        (case ob of
           NoFile \<Rightarrow> polled [] (run st obs)
         | Unreadable e \<Rightarrow> polled [] (run st obs)
         | CommandFile command_data ev removed \<Rightarrow>
             (case execute_command ev st command_data of
                (r, st', cs) \<Rightarrow>
                  if removed \<and> py_get command_data ''type'' PNone = Inr (PStr ''stop'')
                  then \<lparr>final = st', written = [r], polls = 1, exited = True\<rparr>
                  else polled [r] (run st' obs))))"

text \<open>The script's entry point: \<^verbatim>\<open>daemon = BrowserDaemon(); daemon.run()\<close>.\<close>

definition main :: "startup \<Rightarrow> observation list \<Rightarrow> trace" where
  "main su obs =
     (case start_browser su init of
        (st, r) \<Rightarrow> (let t = run st obs in t\<lparr>written := r # written t\<rparr>))"

section \<open>Commands and concrete collaborators\<close>

text \<open>The command object as \<^verbatim>\<open>send_command\<close> builds it: \<^verbatim>\<open>{"type": ..., "args": ...}\<close>.\<close>

definition command :: "string \<Rightarrow> (string \<times> pyval) list \<Rightarrow> pyval" where
  "command ty args = PDict [(''type'', PStr ty), (''args'', PDict args)]"

text \<open>The Goto calls among the primitives called: the navigation targets.\<close>

fun goto_targets :: "call list \<Rightarrow> string list" where
  "goto_targets [] = []"
| "goto_targets (Goto p u # cs) = u # goto_targets cs"
| "goto_targets (c # cs) = goto_targets cs"

text \<open>A browser whose every primitive fails, and one whose every primitive succeeds.\<close>

definition dead_env :: env where
  "dead_env =
     \<lparr>goto = (\<lambda>p u. Inl ''net::ERR''), page_title = (\<lambda>p. Inl ''page closed''),
      page_url = (\<lambda>p. Inl ''page closed''), click = (\<lambda>p s. Inl ''page closed''),
      fill = (\<lambda>p s t. Inl ''page closed''), screenshot = (\<lambda>p f. Inl ''page closed''),
      wait_for_selector = (\<lambda>p s. Inl ''Timeout 30000ms exceeded''),
      evaluate = (\<lambda>p s. Inl ''page closed''), new_page = Inl ''context closed'',
      bring_to_front = (\<lambda>p. Inl ''page closed'')\<rparr>"

definition live_env :: env where
  "live_env =
     \<lparr>goto = (\<lambda>p u. Inr ()), page_title = (\<lambda>p. Inr ''Example Domain''),
      page_url = (\<lambda>p. Inr ''https://example.com/''), click = (\<lambda>p s. Inr ()),
      fill = (\<lambda>p s t. Inr ()), screenshot = (\<lambda>p f. Inr ()),
      wait_for_selector = (\<lambda>p s. Inr ()),
      evaluate = (\<lambda>p s. Inr PNone), new_page = Inr 7,
      bring_to_front = (\<lambda>p. Inr ())\<rparr>"

text \<open>A browser that opens pages but on which navigation fails.\<close>

definition offline_env :: env where
  "offline_env = live_env\<lparr>goto := (\<lambda>p u. Inl ''net::ERR_NAME_NOT_RESOLVED'')\<rparr>"

definition good_startup :: startup where
  "good_startup =
     \<lparr>start_playwright = Inr (), launch = Inr (), new_context = Inr (), first_page = Inr 0\<rparr>"


text \<open>The daemon after a successful start, and with a second tab opened.\<close>

definition one_tab :: daemon where
  "one_tab =
     \<lparr>automation = Some \<lparr>page = Some 0, has_context = True\<rparr>, running = True,
      pages = [\<lparr>tab_page = 0, title = ''New Tab'', url = ''about:blank'', index = 0,
                purpose = None\<rparr>],
      current_page_index = 0\<rparr>"

definition two_tabs :: daemon where
  "two_tabs =
     \<lparr>automation = Some \<lparr>page = Some 7, has_context = True\<rparr>, running = True,
      pages = [\<lparr>tab_page = 0, title = ''New Tab'', url = ''about:blank'', index = 0,
                purpose = None\<rparr>,
               \<lparr>tab_page = 7, title = ''Bing'', url = ''https://bing.com'', index = 1,
                purpose = Some (PStr ''search'')\<rparr>],
      current_page_index = 1\<rparr>"

section \<open>Notions used in the properties\<close>

text \<open>What leaves a case of the dispatcher as a result has one of the two statuses.\<close>

definition has_status :: "outcome \<Rightarrow> bool" where
  "has_status out = (case fst out of Inl e \<Rightarrow> True | Inr r \<Rightarrow> status r = ''success'' \<or> status r = ''error'')"

text \<open>The value of the key \<^verbatim>\<open>url\<close> of the arguments, \<^verbatim>\<open>None\<close> when it is absent.\<close>

definition url_arg :: "(string \<times> pyval) list \<Rightarrow> pyval" where
  "url_arg kvs = (case map_of kvs ''url'' of None \<Rightarrow> PNone | Some v \<Rightarrow> v)"

text \<open>
  The navigation of \<^verbatim>\<open>new_tab\<close> to the url \<open>v\<close> goes through: \<^verbatim>\<open>goto\<close> and the
  \<^verbatim>\<open>title()\<close> that follows both return.
\<close>

definition navigation_succeeds :: "env \<Rightarrow> page_handle \<Rightarrow> pyval \<Rightarrow> bool" where
  "navigation_succeeds ev np v =
     (case v of
        PStr u \<Rightarrow> \<not> isl (goto ev np (with_scheme u)) \<and> \<not> isl (page_title ev np)
      | _ \<Rightarrow> False)"

text \<open>The entry \<^verbatim>\<open>tab_index\<close> of a result's \<^verbatim>\<open>data\<close>.\<close>

definition tab_index_of :: "result \<Rightarrow> pyval option" where
  "tab_index_of r = (case data r of Some (PDict d) \<Rightarrow> map_of d ''tab_index'' | _ \<Rightarrow> None)"

text \<open>The refresh of a tab's metadata fails: \<^verbatim>\<open>title()\<close> or \<^verbatim>\<open>url\<close> raises.\<close>

definition refresh_fails :: "env \<Rightarrow> tab \<Rightarrow> bool" where
  "refresh_fails ev t = (isl (page_title ev (tab_page t)) \<or> isl (page_url ev (tab_page t)))"

text \<open>
  The invariant of the registry: with a tab in the list, \<^verbatim>\<open>current_page_index\<close> is a
  position of the list; and the tab at position \<open>k\<close> has the stored index \<open>k\<close>.
\<close>

definition registry_inv :: "daemon \<Rightarrow> bool" where
  "registry_inv st =
     ((pages st = [] \<or>
        (0 \<le> current_page_index st \<and> current_page_index st < int (length (pages st))))
      \<and> map index (pages st) = map int [0..<length (pages st)])"

text \<open>
  What identifies a tab (handle, stored index, purpose), as opposed to its cached title
  and url; \<open>extends st st'\<close>: the tabs of \<open>st\<close> are, in order, the first tabs of \<open>st'\<close>.
\<close>

definition ident :: "tab \<Rightarrow> page_handle \<times> int \<times> pyval option" where
  "ident t = (tab_page t, index t, purpose t)"

definition extends :: "daemon \<Rightarrow> daemon \<Rightarrow> bool" where
  "extends st st' = prefix (map ident (pages st)) (map ident (pages st'))"

definition sentinel :: "nat \<Rightarrow> pyval \<Rightarrow> pyval" where
  "sentinel k pu =
     PDict [(''index'', PInt (int k)), (''title'', PStr ''Closed Tab''),
            (''url'', PStr ''about:blank''), (''purpose'', pu), (''active'', PBool False)]"

definition keeps :: "daemon \<Rightarrow> outcome \<Rightarrow> bool" where
  "keeps st out = (registry_inv (fst (snd out)) \<and> extends st (fst (snd out)))"



section \<open>Evaluating the dispatcher\<close>

lemma dispatch_command:
  "dispatch ev a st (command ty kvs) =
     (if ty = ''navigate'' then cmd_navigate ev a st (PDict kvs)
      else if ty = ''click'' then cmd_click ev a st (PDict kvs)
      else if ty = ''fill'' then cmd_fill ev a st (PDict kvs)
      else if ty = ''screenshot'' then cmd_screenshot ev a st (PDict kvs)
      else if ty = ''title'' then cmd_title ev a st
      else if ty = ''wait'' then cmd_wait ev a st (PDict kvs)
      else if ty = ''js'' then cmd_js ev a st (PDict kvs)
      else if ty = ''new_tab'' then cmd_new_tab ev a st (PDict kvs)
      else if ty = ''switch_tab'' then cmd_switch_tab ev a st (PDict kvs)
      else if ty = ''list_tabs'' then cmd_list_tabs ev st
      else if ty = ''current_tab'' then cmd_current_tab ev st
      else if ty = ''stop'' then cmd_stop st
      else (Inr (err [Lit ''Unknown command: '', Fmt (PStr ty)]), st, []))"
  by (simp add: dispatch_def command_def py_get_def)

lemma execute_started:
  "automation st = Some a \<Longrightarrow>
   execute_command ev st c =
     (case dispatch ev a st c of
        (Inl e, st', cs) \<Rightarrow> (err [Lit e], st', cs)
      | (Inr r, st', cs) \<Rightarrow> (r, st', cs))"
  by (simp add: execute_command_def)

lemma py_get_dict:
  "py_get (PDict kvs) k d = Inr (case map_of kvs k of None \<Rightarrow> d | Some v \<Rightarrow> v)"
  by (simp add: py_get_def split: option.splits)

lemma dispatch_cases:
  assumes "\<And>e. P (Inl e, st, [])"
    and "\<And>args. P (cmd_navigate ev a st args)"
    and "\<And>args. P (cmd_click ev a st args)"
    and "\<And>args. P (cmd_fill ev a st args)"
    and "\<And>args. P (cmd_screenshot ev a st args)"
    and "P (cmd_title ev a st)"
    and "\<And>args. P (cmd_wait ev a st args)"
    and "\<And>args. P (cmd_js ev a st args)"
    and "\<And>args. P (cmd_new_tab ev a st args)"
    and "\<And>args. P (cmd_switch_tab ev a st args)"
    and "P (cmd_list_tabs ev st)"
    and "P (cmd_current_tab ev st)"
    and "P (cmd_stop st)"
    and "\<And>ty. P (Inr (err [Lit ''Unknown command: '', Fmt ty]), st, [])"
  shows "P (dispatch ev a st c)"
  unfolding dispatch_def using assms by (simp split: sum.splits)

lemma has_status_navigate: "has_status (cmd_navigate ev a st args)"
  by (simp add: has_status_def cmd_navigate_def ok_def Let_def split: sum.splits pyval.splits prod.splits)

lemma has_status_click: "has_status (cmd_click ev a st args)"
  by (simp add: has_status_def cmd_click_def ok_def Let_def split: sum.splits prod.splits)

lemma has_status_fill: "has_status (cmd_fill ev a st args)"
  by (simp add: has_status_def cmd_fill_def ok_def Let_def split: sum.splits prod.splits)

lemma has_status_screenshot: "has_status (cmd_screenshot ev a st args)"
  by (simp add: has_status_def cmd_screenshot_def ok_def Let_def split: sum.splits prod.splits)

lemma has_status_title: "has_status (cmd_title ev a st)"
  by (simp add: has_status_def cmd_title_def ok_def Let_def split: sum.splits option.splits)

lemma has_status_wait: "has_status (cmd_wait ev a st args)"
  by (simp add: has_status_def cmd_wait_def ok_def Let_def split: sum.splits prod.splits)

lemma has_status_js: "has_status (cmd_js ev a st args)"
  by (simp add: has_status_def cmd_js_def ok_def Let_def split: sum.splits prod.splits)

lemma has_status_new_tab: "has_status (cmd_new_tab ev a st args)"
  by (simp add: has_status_def cmd_new_tab_def new_tab_result_def ok_def Let_def
      split: sum.splits pyval.splits)

lemma has_status_switch_tab: "has_status (cmd_switch_tab ev a st args)"
  by (simp add: has_status_def cmd_switch_tab_def ok_def err_def Let_def
      split: sum.splits option.splits)

lemma has_status_list_tabs: "has_status (cmd_list_tabs ev st)"
  by (simp add: has_status_def cmd_list_tabs_def ok_def Let_def split: prod.splits)

lemma has_status_current_tab: "has_status (cmd_current_tab ev st)"
  by (simp add: has_status_def cmd_current_tab_def ok_def err_def Let_def
      split: sum.splits prod.splits)

lemma has_status_dispatch: "has_status (dispatch ev a st c)"
  by (rule dispatch_cases)
     (simp_all add: has_status_navigate has_status_click has_status_fill has_status_screenshot
        has_status_title has_status_wait has_status_js has_status_new_tab has_status_switch_tab
        has_status_list_tabs has_status_current_tab,
      simp_all add: has_status_def cmd_stop_def err_def)

lemma execute_command_status:
  "status (fst (execute_command ev st c)) = ''success'' \<or>
   status (fst (execute_command ev st c)) = ''error''"
proof (cases "automation st")
  case None
  then show ?thesis by (simp add: execute_command_def err_def)
next
  case (Some a)
  obtain x st' cs where d: "dispatch ev a st c = (x, st', cs)"
    by (cases "dispatch ev a st c") auto
  have "has_status (x, st', cs)" using has_status_dispatch [of ev a st c] d by simp
  then show ?thesis
    using Some d by (cases x) (simp_all add: execute_started has_status_def err_def)
qed

lemma not_isl_unit: "\<not> isl (x :: exn + unit) \<Longrightarrow> x = Inr ()"
  by (cases x) auto

lemma store_same:
  "0 \<le> i \<Longrightarrow> i < int (length xs) \<Longrightarrow> store xs i (xs ! nat i) = xs"
  by (simp add: store_def)

lemma switch_tab_state:
  assumes "0 \<le> i" and "i < int (length (pages st))"
  shows "fst (snd (cmd_switch_tab ev a st (PDict [(''index'', PInt i)])))
           = st\<lparr>current_page_index := i,
                automation := Some (a\<lparr>page := Some (tab_page (pages st ! nat i))\<rparr>)\<rparr>"
  using assms by (simp add: cmd_switch_tab_def py_get_dict Let_def split: sum.splits)

lemma execute_state:
  "automation st = Some a \<Longrightarrow>
   fst (snd (execute_command ev st c)) = fst (snd (dispatch ev a st c))"
  by (simp add: execute_started split: prod.splits sum.splits)

section \<open>The loop over the tabs\<close>

lemma list_entry_ident: "ident (fst (list_entry ev cur i t)) = ident t"
  by (simp add: list_entry_def ident_def Let_def split: sum.splits)

lemma list_entry_closed:
  "refresh_fails ev t \<Longrightarrow> fst (snd (list_entry ev cur i t)) = sentinel i (purpose_of t)"
  by (auto simp add: list_entry_def refresh_fails_def closed_entry_def sentinel_def purpose_of_def
      Let_def split: sum.splits)

lemma list_tabs_loop_length:
  "length (fst (list_tabs_loop ev cur i ts)) = length ts \<and>
   length (fst (snd (list_tabs_loop ev cur i ts))) = length ts"
  by (induction ts arbitrary: i) (simp_all add: Let_def split_beta)

lemma list_tabs_loop_ident:
  "map ident (fst (list_tabs_loop ev cur i ts)) = map ident ts"
proof (induction ts arbitrary: i)
  case Nil
  then show ?case by simp
next
  case (Cons t ts)
  show ?case
    using Cons.IH [of "Suc i"] list_entry_ident [of ev cur i t]
    by (simp add: Let_def split_beta)
qed

lemma list_tabs_loop_closed:
  "k < length ts \<Longrightarrow> refresh_fails ev (ts ! k) \<Longrightarrow>
   fst (snd (list_tabs_loop ev cur i ts)) ! k = sentinel (i + k) (purpose_of (ts ! k))"
proof (induction ts arbitrary: i k)
  case Nil
  then show ?case by simp
next
  case (Cons t ts)
  show ?case
  proof (cases k)
    case 0
    then show ?thesis
      using Cons.prems list_entry_closed [of ev t cur i]
      by (simp add: Let_def split_beta)
  next
    case (Suc j)
    then show ?thesis
      using Cons.prems Cons.IH [of j "Suc i"]
      by (simp add: Let_def split_beta)
  qed
qed

section \<open>Preservation of the registry invariant\<close>

lemma cmd_navigate_state: "fst (snd (cmd_navigate ev a st args)) = st"
  by (simp add: cmd_navigate_def Let_def split_beta split: sum.splits pyval.splits)

lemma cmd_click_state: "fst (snd (cmd_click ev a st args)) = st"
  by (simp add: cmd_click_def Let_def split_beta split: sum.splits)

lemma cmd_fill_state: "fst (snd (cmd_fill ev a st args)) = st"
  by (simp add: cmd_fill_def Let_def split_beta split: sum.splits)

lemma cmd_screenshot_state: "fst (snd (cmd_screenshot ev a st args)) = st"
  by (simp add: cmd_screenshot_def Let_def split_beta split: sum.splits)

lemma cmd_title_state: "fst (snd (cmd_title ev a st)) = st"
  by (simp add: cmd_title_def split: sum.splits option.splits)

lemma cmd_wait_state: "fst (snd (cmd_wait ev a st args)) = st"
  by (simp add: cmd_wait_def Let_def split_beta split: sum.splits)

lemma cmd_js_state: "fst (snd (cmd_js ev a st args)) = st"
  by (simp add: cmd_js_def Let_def split_beta split: sum.splits)

lemma extends_refl: "extends st st"
  by (simp add: extends_def)

lemma keeps_same: "registry_inv st \<Longrightarrow> fst (snd out) = st \<Longrightarrow> keeps st out"
  by (simp add: keeps_def extends_refl)

lemma keeps_new_tab:
  assumes "registry_inv st"
  shows "keeps st (cmd_new_tab ev a st args)"
  using assms
  by (simp add: keeps_def cmd_new_tab_def Let_def registry_inv_def extends_def
      split: sum.splits pyval.splits)

lemma keeps_switch_tab:
  assumes "registry_inv st"
  shows "keeps st (cmd_switch_tab ev a st args)"
  using assms
  by (auto simp add: keeps_def cmd_switch_tab_def Let_def extends_def registry_inv_def
      split: sum.splits option.splits)

lemma map_index_ident: "map ident xs = map ident ys \<Longrightarrow> map index xs = map index ys"
proof -
  assume "map ident xs = map ident ys"
  then have "map (\<lambda>p. fst (snd p)) (map ident xs) = map (\<lambda>p. fst (snd p)) (map ident ys)"
    by simp
  then show ?thesis by (simp add: ident_def comp_def)
qed

lemma registry_inv_pages:
  assumes "registry_inv st" and "map ident ps = map ident (pages st)"
  shows "registry_inv (st\<lparr>pages := ps\<rparr>) \<and> extends st (st\<lparr>pages := ps\<rparr>)"
proof -
  have l: "length ps = length (pages st)" using assms(2) by (rule map_eq_imp_length_eq)
  have i: "map index ps = map index (pages st)" using assms(2) by (rule map_index_ident)
  show ?thesis using assms l i by (auto simp add: registry_inv_def extends_def)
qed

lemma keeps_list_tabs:
  assumes "registry_inv st"
  shows "keeps st (cmd_list_tabs ev st)"
  using registry_inv_pages [OF assms list_tabs_loop_ident [of ev "current_page_index st" 0 "pages st"]]
  by (simp add: keeps_def cmd_list_tabs_def split_beta)

lemma refresh_ident: "ident (fst (refresh ev t)) = ident t"
  by (simp add: refresh_def ident_def split: sum.splits)

lemma store_ident:
  assumes "py_index xs i = Inr x" and "ident t = ident x"
  shows "map ident (store xs i t) = map ident xs"
proof (cases "i < 0")
  case True
  with assms(1) have r: "nat (int (length xs) + i) < length xs \<and> x = xs ! nat (int (length xs) + i)"
    by (auto simp add: py_index_def split: if_splits)
  then have "(map ident xs)[nat (int (length xs) + i) := ident t] = map ident xs"
    using assms(2) by (simp add: list_update_same_conv)
  then show ?thesis using True by (simp add: store_def map_update)
next
  case False
  with assms(1) have r: "nat i < length xs \<and> x = xs ! nat i"
    by (auto simp add: py_index_def split: if_splits)
  then have "(map ident xs)[nat i := ident t] = map ident xs"
    using assms(2) by (simp add: list_update_same_conv)
  then show ?thesis using False by (simp add: store_def map_update)
qed

lemma keeps_current_tab:
  assumes "registry_inv st"
  shows "keeps st (cmd_current_tab ev st)"
proof (cases "pages st \<noteq> []")
  case False
  then show ?thesis using assms by (simp add: cmd_current_tab_def keeps_same)
next
  case True
  show ?thesis
  proof (cases "py_index (pages st) (current_page_index st)")
    case (Inl e)
    then show ?thesis using assms True by (simp add: cmd_current_tab_def keeps_same)
  next
    case (Inr x)
    have "map ident (store (pages st) (current_page_index st) (fst (refresh ev x)))
            = map ident (pages st)"
      using Inr refresh_ident [of ev x] by (rule store_ident)
    from registry_inv_pages [OF assms this] show ?thesis
      using True Inr by (simp add: cmd_current_tab_def keeps_def split_beta)
  qed
qed

lemma keeps_stop: "registry_inv st \<Longrightarrow> keeps st (cmd_stop st)"
  by (simp add: keeps_def cmd_stop_def registry_inv_def extends_def)

lemma keeps_dispatch:
  assumes "registry_inv st"
  shows "keeps st (dispatch ev a st c)"
proof (rule dispatch_cases)
  show "keeps st (cmd_new_tab ev a st args)" for args using assms by (rule keeps_new_tab)
  show "keeps st (cmd_switch_tab ev a st args)" for args using assms by (rule keeps_switch_tab)
  show "keeps st (cmd_list_tabs ev st)" using assms by (rule keeps_list_tabs)
  show "keeps st (cmd_current_tab ev st)" using assms by (rule keeps_current_tab)
  show "keeps st (cmd_stop st)" using assms by (rule keeps_stop)
qed (simp_all add: keeps_same assms cmd_navigate_state cmd_click_state cmd_fill_state
      cmd_screenshot_state cmd_title_state cmd_wait_state cmd_js_state)

lemma execute_command_keeps:
  assumes "registry_inv st"
  shows "registry_inv (fst (snd (execute_command ev st c))) \<and>
         extends st (fst (snd (execute_command ev st c)))"
proof (cases "automation st")
  case None
  then show ?thesis using assms by (simp add: execute_command_def extends_refl)
next
  case (Some a)
  have "fst (snd (execute_command ev st c)) = fst (snd (dispatch ev a st c))"
    using Some by (simp add: execute_started split: prod.splits sum.splits)
  then show ?thesis using keeps_dispatch [OF assms, of ev a c] by (simp add: keeps_def)
qed

lemma start_browser_inv: "registry_inv (fst (start_browser su init))"
  by (simp add: start_browser_def init_def registry_inv_def split: prod.splits sum.splits)

lemma run_inv: "registry_inv st \<Longrightarrow> registry_inv (final (run st obs))"
proof (induction obs arbitrary: st)
  case Nil
  then show ?case by simp
next
  case (Cons ob obs)
  show ?case
  proof (cases ob)
    case NoFile
    then show ?thesis using Cons by (simp add: polled_def)
  next
    case (Unreadable e)
    then show ?thesis using Cons by (simp add: polled_def)
  next
    case (CommandFile c ev removed)
    have "registry_inv (fst (snd (execute_command ev st c)))"
      using execute_command_keeps [OF Cons.prems] by simp
    then show ?thesis
      using CommandFile Cons by (simp add: polled_def split_beta)
  qed
qed

lemma registry_inv_one_tab: "registry_inv one_tab"
  by (simp add: registry_inv_def one_tab_def)

section \<open>Startup and polling\<close>














text \<open>
  \<^verbatim>\<open>self.automation\<close> is set by \<^verbatim>\<open>__init__\<close> and no command unsets it: the guard
  \<^verbatim>\<open>if not self.automation\<close> never fires in a daemon built by the script.
\<close>

lemma dispatch_automation: "automation st \<noteq> None \<Longrightarrow> automation (fst (snd (dispatch ev a st c))) \<noteq> None"
proof (rule dispatch_cases)
  show "automation st \<noteq> None \<Longrightarrow> automation (fst (snd (cmd_new_tab ev a st args))) \<noteq> None" for args
    by (simp add: cmd_new_tab_def Let_def split: sum.splits pyval.splits)
  show "automation st \<noteq> None \<Longrightarrow> automation (fst (snd (cmd_switch_tab ev a st args))) \<noteq> None" for args
    by (simp add: cmd_switch_tab_def Let_def split: sum.splits option.splits)
  show "automation st \<noteq> None \<Longrightarrow> automation (fst (snd (cmd_list_tabs ev st))) \<noteq> None"
    by (simp add: cmd_list_tabs_def split_beta)
  show "automation st \<noteq> None \<Longrightarrow> automation (fst (snd (cmd_current_tab ev st))) \<noteq> None"
    by (simp add: cmd_current_tab_def split_beta split: sum.splits)
  show "automation st \<noteq> None \<Longrightarrow> automation (fst (snd (cmd_stop st))) \<noteq> None"
    by (simp add: cmd_stop_def)
qed (simp_all add: cmd_navigate_state cmd_click_state cmd_fill_state
      cmd_screenshot_state cmd_title_state cmd_wait_state cmd_js_state)

lemma execute_command_automation:
  "automation st \<noteq> None \<Longrightarrow> automation (fst (snd (execute_command ev st c))) \<noteq> None"
proof -
  assume h: "automation st \<noteq> None"
  then obtain a where a: "automation st = Some a" by auto
  show ?thesis
    using dispatch_automation [OF h, of ev a c] execute_state [OF a, of ev c] by simp
qed

lemma run_automation:
  "automation st \<noteq> None \<Longrightarrow> automation (final (run st obs)) \<noteq> None"
proof (induction obs arbitrary: st)
  case Nil
  then show ?case by simp
next
  case (Cons ob obs)
  show ?case
  proof (cases ob)
    case NoFile
    then show ?thesis using Cons by (simp add: polled_def)
  next
    case (Unreadable e)
    then show ?thesis using Cons by (simp add: polled_def)
  next
    case (CommandFile c ev removed)
    then show ?thesis
      using Cons execute_command_automation [OF Cons.prems, of ev c]
      by (simp add: polled_def split_beta)
  qed
qed

lemma automation_always_set: "automation (final (main su obs)) \<noteq> None"
proof -
  have "automation (fst (start_browser su init)) \<noteq> None"
    by (simp add: start_browser_def split: prod.splits sum.splits)
  from run_automation [OF this, of obs] show ?thesis
    by (simp add: main_def split_beta Let_def)
qed







section \<open>Failure containment\<close>

text \<open>
  C1, as stated in the specification, at a concrete input: the daemon after a successful
  start receives \<^verbatim>\<open>navigate\<close> for \<^verbatim>\<open>example.com\<close> while every primitive of the browser
  fails. \<^verbatim>\<open>page.goto\<close> raises, \<^verbatim>\<open>navigate_to\<close> catches the exception itself, and the
  dispatcher answers with status \<^verbatim>\<open>success\<close>, not \<^verbatim>\<open>error\<close>; the failure's text is
  in \<^verbatim>\<open>data\<close>.
\<close>

theorem navigate_failure_counterexample:
  "goto dead_env 0 ''https://example.com'' = Inl ''net::ERR'' \<and>
   execute_command dead_env one_tab (command ''navigate'' [(''url'', PStr ''example.com'')])
     = (\<lparr>status = ''success'',
         message = [Lit ''Navigated to '', Fmt (PStr ''https://example.com'')],
         data = Some (PDict [(''success'', PBool False), (''error'', PStr ''net::ERR'')])\<rparr>,
        one_tab, [Goto 0 ''https://example.com''])"
  by (simp add: execute_command_def dispatch_command cmd_navigate_def py_get_dict
      navigate_to_def with_scheme_def startswith_scheme_def ok_def failed_def
      one_tab_def dead_env_def Let_def)

text \<open>
  C1, amended. For a started daemon with a current page: when the primitive behind
  \<^verbatim>\<open>navigate\<close>, \<^verbatim>\<open>click\<close>, \<^verbatim>\<open>fill\<close>, \<^verbatim>\<open>screenshot\<close>, \<^verbatim>\<open>wait\<close> or \<^verbatim>\<open>js\<close> raises with
  text \<open>e\<close>, the dispatcher returns status \<^verbatim>\<open>success\<close> whose \<^verbatim>\<open>data\<close> is
  \<^verbatim>\<open>{"success": False, "error": e}\<close>, and the daemon is unchanged; when
  \<^verbatim>\<open>page.title()\<close> of the \<^verbatim>\<open>title\<close> command raises, the result is status \<^verbatim>\<open>error\<close> with
  message \<open>e\<close>; every exception that leaves the \<^verbatim>\<open>try\<close> block of the dispatcher becomes
  the result with status \<^verbatim>\<open>error\<close> and that exception's text as message; and every
  command whatsoever is answered by a result of status \<^verbatim>\<open>success\<close> or \<^verbatim>\<open>error\<close>.
\<close>

theorem delegate_failure_in_data:
  assumes "automation st = Some a" and "page a = Some p"
  shows "(goto ev p (with_scheme u) = Inl e \<longrightarrow>
            execute_command ev st (command ''navigate'' [(''url'', PStr u)])
              = (ok [Lit ''Navigated to '', Fmt (PStr (with_scheme u))] (failed e), st,
                 [Goto p (with_scheme u)]))
       \<and> (click ev p sel = Inl e \<longrightarrow>
            execute_command ev st (command ''click'' [(''selector'', sel)])
              = (ok [Lit ''Clicked '', Fmt sel] (failed e), st, [Click p sel]))
       \<and> (fill ev p sel txt = Inl e \<longrightarrow>
            execute_command ev st (command ''fill'' [(''selector'', sel), (''text'', txt)])
              = (ok [Lit ''Filled '', Fmt sel, Lit '' with '', Lit [CHR 0x27], Fmt txt,
                     Lit [CHR 0x27]] (failed e), st, [Fill p sel txt]))
       \<and> (screenshot ev p fn = Inl e \<longrightarrow>
            execute_command ev st (command ''screenshot'' [(''filename'', fn)])
              = (ok [Lit ''Screenshot saved as '', Fmt fn] (failed e), st, [Screenshot p fn]))
       \<and> (wait_for_selector ev p sel = Inl e \<longrightarrow>
            execute_command ev st (command ''wait'' [(''selector'', sel)])
              = (ok [Lit ''Waited for '', Fmt sel] (failed e), st, [WaitForSelector p sel]))
       \<and> (evaluate ev p scr = Inl e \<longrightarrow>
            execute_command ev st (command ''js'' [(''script'', scr)])
              = (ok [Lit ''JavaScript executed''] (failed e), st, [Evaluate p scr]))
       \<and> (page_title ev p = Inl e \<longrightarrow>
            execute_command ev st (command ''title'' kvs) = (err [Lit e], st, [Title p]))
       \<and> (\<forall>e' st' cs. dispatch ev a st c = (Inl e', st', cs) \<longrightarrow>
            execute_command ev st c = (err [Lit e'], st', cs))
       \<and> (status (fst (execute_command ev st c)) = ''success'' \<or>
          status (fst (execute_command ev st c)) = ''error'')"
proof (intro conjI impI allI)
  assume "goto ev p (with_scheme u) = Inl e"
  then show "execute_command ev st (command ''navigate'' [(''url'', PStr u)])
              = (ok [Lit ''Navigated to '', Fmt (PStr (with_scheme u))] (failed e), st,
                 [Goto p (with_scheme u)])"
    using assms
    by (simp add: execute_started dispatch_command cmd_navigate_def py_get_dict navigate_to_def
        Let_def)
next
  assume "click ev p sel = Inl e"
  then show "execute_command ev st (command ''click'' [(''selector'', sel)])
              = (ok [Lit ''Clicked '', Fmt sel] (failed e), st, [Click p sel])"
    using assms
    by (simp add: execute_started dispatch_command cmd_click_def py_get_dict click_element_def)
next
  assume "fill ev p sel txt = Inl e"
  then show "execute_command ev st (command ''fill'' [(''selector'', sel), (''text'', txt)])
              = (ok [Lit ''Filled '', Fmt sel, Lit '' with '', Lit [CHR 0x27], Fmt txt,
                     Lit [CHR 0x27]] (failed e), st, [Fill p sel txt])"
    using assms
    by (simp add: execute_started dispatch_command cmd_fill_def py_get_dict fill_form_def)
next
  assume "screenshot ev p fn = Inl e"
  then show "execute_command ev st (command ''screenshot'' [(''filename'', fn)])
              = (ok [Lit ''Screenshot saved as '', Fmt fn] (failed e), st, [Screenshot p fn])"
    using assms
    by (simp add: execute_started dispatch_command cmd_screenshot_def py_get_dict
        take_screenshot_def)
next
  assume "wait_for_selector ev p sel = Inl e"
  then show "execute_command ev st (command ''wait'' [(''selector'', sel)])
              = (ok [Lit ''Waited for '', Fmt sel] (failed e), st, [WaitForSelector p sel])"
    using assms
    by (simp add: execute_started dispatch_command cmd_wait_def py_get_dict
        wait_for_element_def)
next
  assume "evaluate ev p scr = Inl e"
  then show "execute_command ev st (command ''js'' [(''script'', scr)])
              = (ok [Lit ''JavaScript executed''] (failed e), st, [Evaluate p scr])"
    using assms
    by (simp add: execute_started dispatch_command cmd_js_def py_get_dict
        execute_javascript_def)
next
  assume "page_title ev p = Inl e"
  then show "execute_command ev st (command ''title'' kvs) = (err [Lit e], st, [Title p])"
    using assms by (simp add: execute_started dispatch_command cmd_title_def)
next
  fix e' st' cs
  assume "dispatch ev a st c = (Inl e', st', cs)"
  then show "execute_command ev st c = (err [Lit e'], st', cs)"
    using assms by (simp add: execute_started)
next
  show "status (fst (execute_command ev st c)) = ''success'' \<or>
        status (fst (execute_command ev st c)) = ''error''"
    by (rule execute_command_status)
qed

theorem delegate_failure_in_data_witness:
  "automation one_tab = Some \<lparr>page = Some 0, has_context = True\<rparr>
   \<and> click dead_env 0 (PStr ''#go'') = Inl ''page closed''
   \<and> execute_command dead_env one_tab (command ''click'' [(''selector'', PStr ''#go'')])
       = (ok [Lit ''Clicked '', Fmt (PStr ''#go'')] (failed ''page closed''), one_tab,
          [Click 0 (PStr ''#go'')])
   \<and> page_title dead_env 0 = Inl ''page closed''
   \<and> execute_command dead_env one_tab (command ''title'' [])
       = (err [Lit ''page closed''], one_tab, [Title 0])"
  using delegate_failure_in_data [of one_tab "\<lparr>page = Some 0, has_context = True\<rparr>" 0 dead_env
      "''example.com''" "''page closed''" "PStr ''#go''" PNone PNone PNone "[]" PNone]
  by (simp add: one_tab_def dead_env_def)

section \<open>Lifecycle\<close>




section \<open>The current tab\<close>

text \<open>
  C3, as stated in the specification, at a concrete input: two tabs, the second one
  current with the cached title \<^verbatim>\<open>Bing\<close>, and every primitive of the browser failing.
  \<^verbatim>\<open>current_tab\<close> answers with the cached title and url, not with \<^verbatim>\<open>Closed Tab\<close> and
  \<^verbatim>\<open>about:blank\<close>: its \<^verbatim>\<open>except\<close> clause is \<^verbatim>\<open>pass\<close>.
\<close>

theorem current_tab_counterexample:
  "page_title dead_env (tab_page (pages two_tabs ! 1)) = Inl ''page closed'' \<and>
   execute_command dead_env two_tabs (command ''current_tab'' [])
     = (\<lparr>status = ''success'', message = [Lit ''Current tab info''],
         data = Some (PDict [(''tab_index'', PInt 1), (''title'', PStr ''Bing''),
                             (''url'', PStr ''https://bing.com''),
                             (''purpose'', PStr ''search'')])\<rparr>,
        two_tabs, [Title 7])"
  by (simp add: execute_command_def dispatch_command cmd_current_tab_def py_index_def
      refresh_def store_def purpose_of_def ok_def two_tabs_def dead_env_def Let_def)

text \<open>
  C3, amended. For a started daemon: with an empty registry \<^verbatim>\<open>current_tab\<close> returns the
  error result \<^verbatim>\<open>No tabs available\<close>. With a non-empty registry and the current index
  in range, when the refresh of the current tab fails \<^verbatim>\<open>current_tab\<close> never raises and
  returns status \<^verbatim>\<open>success\<close> with the cached metadata: if \<^verbatim>\<open>title()\<close> raises, the cached
  title and url are returned and the daemon is unchanged; if \<^verbatim>\<open>title()\<close> returns and
  \<^verbatim>\<open>url\<close> raises, the fresh title and the cached url are returned. No sentinel value is
  substituted.
\<close>

theorem current_tab_keeps_cache:
  assumes "automation st = Some a"
  shows "(pages st = [] \<longrightarrow>
            execute_command ev st (command ''current_tab'' kvs)
              = (err [Lit ''No tabs available''], st, []))
       \<and> (0 \<le> current_page_index st \<and> current_page_index st < int (length (pages st))
          \<and> page_title ev (tab_page (pages st ! nat (current_page_index st))) = Inl e \<longrightarrow>
            execute_command ev st (command ''current_tab'' kvs)
              = (ok [Lit ''Current tab info'']
                    (PDict [(''tab_index'', PInt (current_page_index st)),
                            (''title'', PStr (title (pages st ! nat (current_page_index st)))),
                            (''url'', PStr (url (pages st ! nat (current_page_index st)))),
                            (''purpose'', purpose_of (pages st ! nat (current_page_index st)))]),
                 st, [Title (tab_page (pages st ! nat (current_page_index st)))]))
       \<and> (0 \<le> current_page_index st \<and> current_page_index st < int (length (pages st))
          \<and> page_title ev (tab_page (pages st ! nat (current_page_index st))) = Inr ti
          \<and> page_url ev (tab_page (pages st ! nat (current_page_index st))) = Inl e \<longrightarrow>
            fst (execute_command ev st (command ''current_tab'' kvs))
              = ok [Lit ''Current tab info'']
                   (PDict [(''tab_index'', PInt (current_page_index st)),
                           (''title'', PStr ti),
                           (''url'', PStr (url (pages st ! nat (current_page_index st)))),
                           (''purpose'', purpose_of (pages st ! nat (current_page_index st)))]))"
proof (intro conjI impI)
  assume "pages st = []"
  then show "execute_command ev st (command ''current_tab'' kvs)
              = (err [Lit ''No tabs available''], st, [])"
    using assms by (simp add: execute_started dispatch_command cmd_current_tab_def)
next
  let ?i = "current_page_index st"
  assume h: "0 \<le> ?i \<and> ?i < int (length (pages st))
          \<and> page_title ev (tab_page (pages st ! nat ?i)) = Inl e"
  then have ne: "pages st \<noteq> []" by auto
  have keep: "st\<lparr>pages := store (pages st) ?i (pages st ! nat ?i)\<rparr> = st"
    using h by (simp add: store_same)
  show "execute_command ev st (command ''current_tab'' kvs)
              = (ok [Lit ''Current tab info'']
                    (PDict [(''tab_index'', PInt ?i),
                            (''title'', PStr (title (pages st ! nat ?i))),
                            (''url'', PStr (url (pages st ! nat ?i))),
                            (''purpose'', purpose_of (pages st ! nat ?i))]),
                 st, [Title (tab_page (pages st ! nat ?i))])"
    using assms h ne keep
    by (simp add: execute_started dispatch_command cmd_current_tab_def py_index_def refresh_def)
next
  let ?i = "current_page_index st"
  assume h: "0 \<le> ?i \<and> ?i < int (length (pages st))
          \<and> page_title ev (tab_page (pages st ! nat ?i)) = Inr ti
          \<and> page_url ev (tab_page (pages st ! nat ?i)) = Inl e"
  then have ne: "pages st \<noteq> []" by auto
  show "fst (execute_command ev st (command ''current_tab'' kvs))
              = ok [Lit ''Current tab info'']
                   (PDict [(''tab_index'', PInt ?i),
                           (''title'', PStr ti),
                           (''url'', PStr (url (pages st ! nat ?i))),
                           (''purpose'', purpose_of (pages st ! nat ?i))])"
    using assms h ne
    by (simp add: execute_started dispatch_command cmd_current_tab_def py_index_def refresh_def
        purpose_of_def)
qed

theorem current_tab_keeps_cache_witness:
  "execute_command dead_env two_tabs (command ''current_tab'' [])
     = (ok [Lit ''Current tab info'']
           (PDict [(''tab_index'', PInt 1), (''title'', PStr ''Bing''),
                   (''url'', PStr ''https://bing.com''), (''purpose'', PStr ''search'')]),
        two_tabs, [Title 7])
   \<and> execute_command dead_env (two_tabs\<lparr>pages := []\<rparr>) (command ''current_tab'' [])
     = (err [Lit ''No tabs available''], two_tabs\<lparr>pages := []\<rparr>, [])"
  using current_tab_keeps_cache [of two_tabs "\<lparr>page = Some 7, has_context = True\<rparr>" dead_env "[]"
      "''page closed''" "[]"]
    current_tab_keeps_cache [of "two_tabs\<lparr>pages := []\<rparr>" "\<lparr>page = Some 7, has_context = True\<rparr>"
      dead_env "[]" "''page closed''" "[]"]
  by (simp add: two_tabs_def dead_env_def purpose_of_def)

section \<open>Opening a tab\<close>

text \<open>
  C4. For every registry state (any list of tabs, any current index) of a started
  daemon whose browser context opens the new page, and with the navigation to the url
  argument, if one is given, going through: \<^verbatim>\<open>new_tab\<close> makes the list of tabs longer by
  exactly one, keeping the tabs it had; the new tab, at the end, is the current tab and
  the page the automation now points to; the result has status \<^verbatim>\<open>success\<close> and its
  \<^verbatim>\<open>tab_index\<close> is the number of tabs before the insertion.
\<close>

theorem new_tab_appends:
  assumes "automation st = Some a" and "has_context a" and "new_page ev = Inr np"
    and "\<not> truthy (url_arg kvs) \<or> navigation_succeeds ev np (url_arg kvs)"
    and "execute_command ev st (command ''new_tab'' kvs) = (r, st', cs)"
  shows "length (pages st') = length (pages st) + 1
       \<and> take (length (pages st)) (pages st') = pages st
       \<and> current_page_index st' = int (length (pages st))
       \<and> tab_page (pages st' ! length (pages st)) = np
       \<and> index (pages st' ! length (pages st)) = int (length (pages st))
       \<and> automation st' = Some (a\<lparr>page := Some np\<rparr>)
       \<and> status r = ''success''
       \<and> tab_index_of r = Some (PInt (int (length (pages st))))"
proof (cases "truthy (url_arg kvs)")
  case False
  then show ?thesis
    using assms(1,2,3,5)
    by (auto simp add: execute_started dispatch_command cmd_new_tab_def py_get_dict url_arg_def
        new_tab_result_def ok_def tab_index_of_def Let_def nth_append)
next
  case True
  with assms(4) have ns: "navigation_succeeds ev np (url_arg kvs)" by simp
  then obtain u where u: "url_arg kvs = PStr u"
    by (cases "url_arg kvs") (simp_all add: navigation_succeeds_def)
  from ns u have g: "goto ev np (with_scheme u) = Inr ()"
    by (simp add: navigation_succeeds_def not_isl_unit)
  from ns u obtain ti where t: "page_title ev np = Inr ti"
    by (cases "page_title ev np") (simp_all add: navigation_succeeds_def)
  from True u have "u \<noteq> []" by simp
  then show ?thesis
    using assms(1,2,3,5) u g t
    by (auto simp add: execute_started dispatch_command cmd_new_tab_def py_get_dict url_arg_def
        new_tab_result_def ok_def tab_index_of_def Let_def nth_append)
qed

theorem new_tab_appends_witness:
  "fst (execute_command live_env one_tab
          (command ''new_tab'' [(''purpose'', PStr ''search''), (''url'', PStr ''bing.com'')]))
     = ok [Lit ''New tab opened (Tab '', Fmt (PInt 2), Lit '')'']
          (PDict [(''tab_index'', PInt 1), (''purpose'', PStr ''search''),
                  (''url'', PStr ''https://bing.com'')])
   \<and> length (pages (fst (snd (execute_command live_env one_tab
          (command ''new_tab'' [(''purpose'', PStr ''search''), (''url'', PStr ''bing.com'')])))))
       = 2"
  using new_tab_appends [of one_tab "\<lparr>page = Some 0, has_context = True\<rparr>" live_env 7
      "[(''purpose'', PStr ''search''), (''url'', PStr ''bing.com'')]"
      "fst (execute_command live_env one_tab
          (command ''new_tab'' [(''purpose'', PStr ''search''), (''url'', PStr ''bing.com'')]))"
      "fst (snd (execute_command live_env one_tab
          (command ''new_tab'' [(''purpose'', PStr ''search''), (''url'', PStr ''bing.com'')])))"
      "snd (snd (execute_command live_env one_tab
          (command ''new_tab'' [(''purpose'', PStr ''search''), (''url'', PStr ''bing.com'')])))"]
  by (simp add: one_tab_def live_env_def url_arg_def navigation_succeeds_def
      execute_command_def dispatch_command cmd_new_tab_def py_get_dict with_scheme_def
      startswith_scheme_def new_tab_result_def purpose_of_def Let_def)

text \<open>
  C10. When \<^verbatim>\<open>new_tab\<close> is given a non-empty url and the navigation raises with text \<open>e\<close>
  (\<^verbatim>\<open>goto\<close> raises, or \<^verbatim>\<open>goto\<close> returns and the \<^verbatim>\<open>title()\<close> after it raises), the command
  returns the error result with message \<open>e\<close>, and the registry is not rolled back: the
  list of tabs is longer by one and \<^verbatim>\<open>current_page_index\<close> points to the appended tab.
\<close>

theorem new_tab_not_atomic:
  assumes "automation st = Some a" and "has_context a" and "new_page ev = Inr np"
    and "map_of kvs ''url'' = Some (PStr u)" and "u \<noteq> []"
    and "goto ev np (with_scheme u) = Inl e
         \<or> (goto ev np (with_scheme u) = Inr () \<and> page_title ev np = Inl e)"
    and "execute_command ev st (command ''new_tab'' kvs) = (r, st', cs)"
  shows "r = err [Lit e]
       \<and> length (pages st') = length (pages st) + 1
       \<and> take (length (pages st)) (pages st') = pages st
       \<and> current_page_index st' = int (length (pages st))
       \<and> tab_page (pages st' ! length (pages st)) = np
       \<and> automation st' = Some (a\<lparr>page := Some np\<rparr>)"
  using assms
  by (auto simp add: execute_started dispatch_command cmd_new_tab_def py_get_dict
      Let_def nth_append)

theorem new_tab_not_atomic_witness:
  "execute_command offline_env one_tab (command ''new_tab'' [(''url'', PStr ''bing.com'')])
     = (err [Lit ''net::ERR_NAME_NOT_RESOLVED''],
        one_tab\<lparr>pages := pages one_tab @
                   [\<lparr>tab_page = 7, title = ''New Tab'', url = ''about:blank'', index = 1,
                     purpose = Some (PStr ''general'')\<rparr>],
                 current_page_index := 1,
                 automation := Some \<lparr>page = Some 7, has_context = True\<rparr>\<rparr>,
        [NewPage, Goto 7 ''https://bing.com''])
   \<and> length (pages (fst (snd (execute_command offline_env one_tab
         (command ''new_tab'' [(''url'', PStr ''bing.com'')]))))) = length (pages one_tab) + 1"
  using new_tab_not_atomic [of one_tab "\<lparr>page = Some 0, has_context = True\<rparr>" offline_env 7
      "[(''url'', PStr ''bing.com'')]" "''bing.com''" "''net::ERR_NAME_NOT_RESOLVED''"
      "fst (execute_command offline_env one_tab (command ''new_tab'' [(''url'', PStr ''bing.com'')]))"
      "fst (snd (execute_command offline_env one_tab (command ''new_tab'' [(''url'', PStr ''bing.com'')])))"
      "snd (snd (execute_command offline_env one_tab (command ''new_tab'' [(''url'', PStr ''bing.com'')])))"]
  by (simp add: one_tab_def offline_env_def live_env_def
      execute_command_def dispatch_command cmd_new_tab_def py_get_dict with_scheme_def
      startswith_scheme_def err_def Let_def)

section \<open>Normalising the url\<close>

text \<open>
  C5, as stated in the specification, at a concrete input: \<^verbatim>\<open>new_tab\<close> is given the
  empty string as url. It does not begin with \<^verbatim>\<open>http://\<close> or \<^verbatim>\<open>https://\<close>, yet nothing is
  passed to the navigation: the test \<^verbatim>\<open>if args.get('url')\<close> takes the empty string as no
  url, the tab is opened and stays at \<^verbatim>\<open>about:blank\<close>.
\<close>

theorem new_tab_empty_url_counterexample:
  "\<not> prefix ''http://'' '''' \<and> \<not> prefix ''https://'' ''''
   \<and> execute_command live_env one_tab (command ''new_tab'' [(''url'', PStr '''')])
     = (\<lparr>status = ''success'',
         message = [Lit ''New tab opened (Tab '', Fmt (PInt 2), Lit '')''],
         data = Some (PDict [(''tab_index'', PInt 1), (''purpose'', PStr ''general''),
                             (''url'', PStr ''about:blank'')])\<rparr>,
        one_tab\<lparr>pages := pages one_tab @
                   [\<lparr>tab_page = 7, title = ''New Tab'', url = ''about:blank'', index = 1,
                     purpose = Some (PStr ''general'')\<rparr>],
                 current_page_index := 1,
                 automation := Some \<lparr>page = Some 7, has_context = True\<rparr>\<rparr>,
        [NewPage])
   \<and> goto_targets (snd (snd (execute_command live_env one_tab
         (command ''new_tab'' [(''url'', PStr '''')])))) = []"
  by (simp add: execute_command_def dispatch_command cmd_new_tab_def py_get_dict
      new_tab_result_def purpose_of_def ok_def one_tab_def live_env_def Let_def)

text \<open>
  C5, amended. For every url string \<open>u\<close> supplied to \<^verbatim>\<open>navigate\<close>, and for every non-empty
  url string \<open>u\<close> supplied to \<^verbatim>\<open>new_tab\<close>: the string passed to the underlying navigation
  is \<open>u\<close> itself when \<open>u\<close> begins with \<^verbatim>\<open>http://\<close> or \<^verbatim>\<open>https://\<close>, and \<^verbatim>\<open>https://\<close>
  followed by \<open>u\<close> otherwise, and it is the only navigation of the command; \<^verbatim>\<open>new_tab\<close>
  with the empty string as url does not navigate at all. In particular \<^verbatim>\<open>example.com\<close>
  is navigated as \<^verbatim>\<open>https://example.com\<close>.
\<close>

theorem url_normalization:
  assumes "automation st = Some a"
  shows "(page a = Some p \<longrightarrow>
            goto_targets (snd (snd (execute_command ev st
                (command ''navigate'' [(''url'', PStr u)]))))
              = [if prefix ''http://'' u \<or> prefix ''https://'' u then u else ''https://'' @ u])
       \<and> (has_context a \<and> new_page ev = Inr np \<and> map_of kvs ''url'' = Some (PStr u) \<longrightarrow>
            goto_targets (snd (snd (execute_command ev st (command ''new_tab'' kvs))))
              = (if u = [] then []
                 else [if prefix ''http://'' u \<or> prefix ''https://'' u then u
                       else ''https://'' @ u]))
       \<and> with_scheme ''example.com'' = ''https://example.com''"
proof (intro conjI impI)
  assume "page a = Some p"
  then show "goto_targets (snd (snd (execute_command ev st
                (command ''navigate'' [(''url'', PStr u)]))))
              = [if prefix ''http://'' u \<or> prefix ''https://'' u then u else ''https://'' @ u]"
    using assms
    by (simp add: execute_started dispatch_command cmd_navigate_def py_get_dict navigate_to_def
        with_scheme_def startswith_scheme_def Let_def split: sum.splits)
next
  assume "has_context a \<and> new_page ev = Inr np \<and> map_of kvs ''url'' = Some (PStr u)"
  then show "goto_targets (snd (snd (execute_command ev st (command ''new_tab'' kvs))))
              = (if u = [] then []
                 else [if prefix ''http://'' u \<or> prefix ''https://'' u then u
                       else ''https://'' @ u])"
    using assms
    by (simp add: execute_started dispatch_command cmd_new_tab_def py_get_dict
        with_scheme_def startswith_scheme_def Let_def split: sum.splits)
next
  show "with_scheme ''example.com'' = ''https://example.com''"
    by (simp add: with_scheme_def startswith_scheme_def)
qed

theorem url_normalization_witness:
  "goto_targets (snd (snd (execute_command live_env one_tab
      (command ''navigate'' [(''url'', PStr ''example.com'')])))) = [''https://example.com'']
   \<and> goto_targets (snd (snd (execute_command live_env one_tab
      (command ''new_tab'' [(''url'', PStr ''http://bing.com'')])))) = [''http://bing.com'']"
  using url_normalization [of one_tab "\<lparr>page = Some 0, has_context = True\<rparr>" 0 live_env
      "''example.com''" 7 "[(''url'', PStr ''http://bing.com'')]"]
    url_normalization [of one_tab "\<lparr>page = Some 0, has_context = True\<rparr>" 0 live_env
      "''http://bing.com''" 7 "[(''url'', PStr ''http://bing.com'')]"]
  by (simp add: one_tab_def live_env_def)

section \<open>Switching tabs\<close>

text \<open>
  C6. For every integer \<open>i\<close> outside \<open>[0, tab_count)\<close>, \<^verbatim>\<open>switch_tab\<close> with index \<open>i\<close>
  returns a result of status \<^verbatim>\<open>error\<close> and leaves the whole daemon, so also
  \<^verbatim>\<open>current_page_index\<close>, as it was; no primitive of the browser is called.
\<close>

theorem switch_tab_out_of_range:
  assumes "\<not> (0 \<le> i \<and> i < int (length (pages st)))"
  shows "\<exists>m. execute_command ev st (command ''switch_tab'' [(''index'', PInt i)])
           = (\<lparr>status = ''error'', message = m, data = None\<rparr>, st, [])"
proof (cases "automation st")
  case None
  then show ?thesis by (simp add: execute_command_def err_def)
next
  case (Some a)
  have "cmd_switch_tab ev a st (PDict [(''index'', PInt i)])
          = (Inr (err [Lit ''Tab index '', Fmt (PInt i), Lit '' not found'']), st, [])"
    using assms by (auto simp add: cmd_switch_tab_def py_get_dict)
  then show ?thesis
    using Some by (simp add: execute_started dispatch_command err_def)
qed

theorem switch_tab_out_of_range_witness:
  "\<exists>m. execute_command live_env two_tabs (command ''switch_tab'' [(''index'', PInt 2)])
           = (\<lparr>status = ''error'', message = m, data = None\<rparr>, two_tabs, [])"
  using switch_tab_out_of_range [of 2 two_tabs live_env] by (simp add: two_tabs_def)

text \<open>
  C7. For every valid tab index \<open>i\<close> (\<open>0 \<le> i < tab_count\<close>) of a started daemon,
  \<^verbatim>\<open>switch_tab\<close> with index \<open>i\<close> followed by \<^verbatim>\<open>current_tab\<close> yields a \<^verbatim>\<open>current_tab\<close> result
  of status \<^verbatim>\<open>success\<close> whose \<^verbatim>\<open>tab_index\<close> is \<open>i\<close>, whatever the browser does during
  the two commands (also when \<^verbatim>\<open>bring_to_front\<close> raises).
\<close>

theorem switch_then_current:
  assumes "automation st = Some a" and "0 \<le> i" and "i < int (length (pages st))"
    and "execute_command ev1 st (command ''switch_tab'' [(''index'', PInt i)]) = (r1, st1, cs1)"
    and "execute_command ev2 st1 (command ''current_tab'' kvs) = (r2, st2, cs2)"
  shows "status r2 = ''success'' \<and> tab_index_of r2 = Some (PInt i)"
proof -
  have st1: "st1 = st\<lparr>current_page_index := i,
                automation := Some (a\<lparr>page := Some (tab_page (pages st ! nat i))\<rparr>)\<rparr>"
    using execute_state [OF assms(1), of ev1 "command ''switch_tab'' [(''index'', PInt i)]"]
      switch_tab_state [OF assms(2,3), of ev1 a] assms(4)
    by (simp add: dispatch_command)
  have ne: "pages st \<noteq> []" using assms(2,3) by auto
  show ?thesis
    using assms(2,3,5) ne unfolding st1
    by (auto simp add: execute_command_def dispatch_command cmd_current_tab_def py_index_def
        ok_def tab_index_of_def Let_def split: prod.splits)
qed

theorem switch_then_current_witness:
  "tab_index_of (fst (execute_command dead_env
      (fst (snd (execute_command dead_env two_tabs (command ''switch_tab'' [(''index'', PInt 0)]))))
      (command ''current_tab'' []))) = Some (PInt 0)"
  using switch_then_current [of two_tabs "\<lparr>page = Some 7, has_context = True\<rparr>" 0 dead_env
      "fst (execute_command dead_env two_tabs (command ''switch_tab'' [(''index'', PInt 0)]))"
      "fst (snd (execute_command dead_env two_tabs (command ''switch_tab'' [(''index'', PInt 0)])))"
      "snd (snd (execute_command dead_env two_tabs (command ''switch_tab'' [(''index'', PInt 0)])))"
      dead_env "[]"
      "fst (execute_command dead_env
        (fst (snd (execute_command dead_env two_tabs (command ''switch_tab'' [(''index'', PInt 0)]))))
        (command ''current_tab'' []))"
      "fst (snd (execute_command dead_env
        (fst (snd (execute_command dead_env two_tabs (command ''switch_tab'' [(''index'', PInt 0)]))))
        (command ''current_tab'' [])))"
      "snd (snd (execute_command dead_env
        (fst (snd (execute_command dead_env two_tabs (command ''switch_tab'' [(''index'', PInt 0)]))))
        (command ''current_tab'' [])))"]
  by (simp add: two_tabs_def)

section \<open>Listing the tabs\<close>

text \<open>
  C8. For every registry state of a started daemon and whatever the page handles do,
  \<^verbatim>\<open>list_tabs\<close> returns a result of status \<^verbatim>\<open>success\<close> with one entry per tab; each tab
  whose refresh fails appears, at its position, with title \<^verbatim>\<open>Closed Tab\<close>, url
  \<^verbatim>\<open>about:blank\<close> and \<^verbatim>\<open>active\<close> false.
\<close>

theorem list_tabs_total:
  assumes "automation st = Some a"
  shows "\<exists>infos st' cs.
           execute_command ev st (command ''list_tabs'' kvs)
             = (\<lparr>status = ''success'',
                 message = [Lit ''Found '', Fmt (PInt (int (length (pages st)))), Lit '' tabs''],
                 data = Some (PDict [(''tabs'', PList infos),
                                     (''current_tab'', PInt (current_page_index st))])\<rparr>,
                st', cs)
         \<and> length infos = length (pages st)
         \<and> (\<forall>k < length (pages st). refresh_fails ev (pages st ! k) \<longrightarrow>
               infos ! k =
                 PDict [(''index'', PInt (int k)), (''title'', PStr ''Closed Tab''),
                        (''url'', PStr ''about:blank''),
                        (''purpose'', purpose_of (pages st ! k)), (''active'', PBool False)])"
proof -
  obtain ps infos cs where l: "list_tabs_loop ev (current_page_index st) 0 (pages st) = (ps, infos, cs)"
    by (cases "list_tabs_loop ev (current_page_index st) 0 (pages st)") auto
  have len: "length infos = length (pages st)"
    using list_tabs_loop_length [of ev "current_page_index st" 0 "pages st"] l by simp
  have cl: "\<And>k. k < length (pages st) \<Longrightarrow> refresh_fails ev (pages st ! k) \<Longrightarrow>
               infos ! k = sentinel k (purpose_of (pages st ! k))"
    using list_tabs_loop_closed [of _ "pages st" ev "current_page_index st" 0] l by simp
  have "execute_command ev st (command ''list_tabs'' kvs)
             = (\<lparr>status = ''success'',
                 message = [Lit ''Found '', Fmt (PInt (int (length (pages st)))), Lit '' tabs''],
                 data = Some (PDict [(''tabs'', PList infos),
                                     (''current_tab'', PInt (current_page_index st))])\<rparr>,
                st\<lparr>pages := ps\<rparr>, cs)"
    using assms l len by (simp add: execute_started dispatch_command cmd_list_tabs_def ok_def)
  then show ?thesis using len cl by (auto simp add: sentinel_def)
qed

theorem list_tabs_total_witness:
  "\<exists>infos st' cs.
     execute_command dead_env two_tabs (command ''list_tabs'' [])
       = (\<lparr>status = ''success'', message = [Lit ''Found '', Fmt (PInt 2), Lit '' tabs''],
           data = Some (PDict [(''tabs'', PList infos), (''current_tab'', PInt 1)])\<rparr>, st', cs)
     \<and> length infos = 2
     \<and> infos ! 1 =
         PDict [(''index'', PInt 1), (''title'', PStr ''Closed Tab''),
                (''url'', PStr ''about:blank''), (''purpose'', PStr ''search''),
                (''active'', PBool False)]"
proof -
  have f: "refresh_fails dead_env (pages two_tabs ! 1)"
    by (simp add: refresh_fails_def dead_env_def)
  have p: "purpose_of (pages two_tabs ! 1) = PStr ''search''"
    by (simp add: two_tabs_def purpose_of_def)
  have l: "length (pages two_tabs) = 2" "current_page_index two_tabs = 1"
    "automation two_tabs = Some \<lparr>page = Some 7, has_context = True\<rparr>"
    by (simp_all add: two_tabs_def)
  from list_tabs_total [OF l(3), of dead_env "[]"] f p l(1,2)
  show ?thesis by fastforce
qed

section \<open>The registry invariant\<close>

text \<open>
  C9. Every command the dispatcher processes preserves the registry invariant (with a
  tab in the list, \<open>0 \<le> current_index < length(tabs)\<close>; the stored index of each tab is
  its position), and the tabs before the command are, in order and with their handle,
  index and purpose, the first tabs after it: no command removes a tab. The invariant
  holds when the daemon has started, so it holds throughout the loop.
\<close>

theorem registry_invariant:
  "registry_inv (final (main su obs))
   \<and> (registry_inv st \<and> execute_command ev st c = (r, st', cs)
        \<longrightarrow> registry_inv st' \<and> extends st st')"
proof
  show "registry_inv (final (main su obs))"
    using run_inv [OF start_browser_inv, of su obs] by (simp add: main_def split_beta Let_def)
  show "registry_inv st \<and> execute_command ev st c = (r, st', cs)
        \<longrightarrow> registry_inv st' \<and> extends st st'"
    using execute_command_keeps [of st ev c] by auto
qed

theorem registry_invariant_witness:
  "registry_inv one_tab
   \<and> registry_inv (fst (snd (execute_command live_env one_tab (command ''new_tab'' []))))
   \<and> extends one_tab (fst (snd (execute_command live_env one_tab (command ''new_tab'' []))))"
  using registry_invariant [of good_startup "[]" one_tab live_env "command ''new_tab'' []"
      "fst (execute_command live_env one_tab (command ''new_tab'' []))"
      "fst (snd (execute_command live_env one_tab (command ''new_tab'' [])))"
      "snd (snd (execute_command live_env one_tab (command ''new_tab'' [])))"]
    registry_inv_one_tab
  by simp

end
